theory Spec2Isabelle
  imports Complex_Main "HOL-Library.Multiset"
begin

section \<open>The store: the four tables created by \<open>init_db\<close>\<close>

text \<open>
  The backend (\<open>backend/app.py\<close>) keeps its whole state in four SQLite tables. A table
  is a list of rows in insertion order; a row is a record with one field per column.
  \<open>INTEGER\<close> columns are \<open>int\<close>, \<open>TEXT\<close> columns are \<open>string\<close>: a text is a list
  of characters with codes below 256. \<open>REAL\<close> columns and Python floats are modelled
  as \<open>real\<close>: the rounding of IEEE doubles is not part of this model, and a price is a
  finite number (no NaN, no infinity). A \<open>TIMESTAMP\<close> is the number of seconds since
  an epoch, so that the calendar day of a timestamp is its quotient by 86400.
\<close>

type_synonym timestamp = int

record category =
  c_id :: int
  c_name :: string

record product =
  p_id :: int
  p_name :: string
  p_sku :: string
  p_category_id :: int
  p_price :: real
  p_purchasing_price :: real
  p_stock_quantity :: int
  p_min_stock_level :: int
  p_created_at :: timestamp
  p_updated_at :: timestamp

record sale =
  s_id :: int
  s_product_id :: int
  s_quantity :: int
  s_total_price :: real
  s_sale_date :: timestamp

record stock_log =
  l_id :: int
  l_product_id :: int
  l_change_amount :: int
  l_reason :: string
  l_timestamp :: timestamp

record db =
  categories :: "category list"
  products :: "product list"
  sales :: "sale list"
  stock_logs :: "stock_log list"

text \<open>
  \<open>INTEGER PRIMARY KEY AUTOINCREMENT\<close>: the key of a new row is one more than the
  largest key of the table (1 for an empty table). No route of the backend deletes a
  row, so the largest key that ever existed is the largest key present.
\<close>

definition lastrowid :: "int list \<Rightarrow> int" where
  "lastrowid ids = fold max ids 0 + 1"

text \<open>
  A Python \<open>int\<close> has no bound, an SQLite \<open>INTEGER\<close> has 64 bits: \<open>sqlite3\<close> raises
  \<open>OverflowError\<close> when a statement is executed with an integer parameter outside
  that range, before the statement runs.
\<close>

definition fits_int64 :: "int \<Rightarrow> bool" where
  "fits_int64 n = (- (2 ^ 63) \<le> n \<and> n < 2 ^ 63)"

text \<open>
  The state \<open>init_db\<close> leaves on a fresh database file: the eight sample categories
  and three empty tables.
\<close>

definition init_db :: db where
  "init_db =
     \<lparr>categories =
        [\<lparr>c_id = 1, c_name = ''Electronics''\<rparr>,
         \<lparr>c_id = 2, c_name = ''Clothing''\<rparr>,
         \<lparr>c_id = 3, c_name = ''Food & Beverages''\<rparr>,
         \<lparr>c_id = 4, c_name = ''Books''\<rparr>,
         \<lparr>c_id = 5, c_name = ''Home & Garden''\<rparr>,
         \<lparr>c_id = 6, c_name = ''Sports & Outdoors''\<rparr>,
         \<lparr>c_id = 7, c_name = ''Toys & Games''\<rparr>,
         \<lparr>c_id = 8, c_name = ''Health & Beauty''\<rparr>],
      products = [], sales = [], stock_logs = []\<rparr>"

section \<open>Requests and responses\<close>

text \<open>
  \<open>add_sale\<close> and \<open>restock\<close> read \<open>quantity\<close> from the JSON body and use it as it
  comes, with no conversion. The JSON values represented here are \<open>null\<close> (also the
  value of \<open>data.get\<close> for an absent key), the booleans, the integers and the strings.
  Arrays, objects and numbers that are not integers (a fractional part, an infinity)
  are not represented: the handlers accept such a number when it is positive and write
  it to the store, whose integer columns in this model cannot hold it.
\<close>

datatype json = JNull | JBool bool | JInt int | JStr string

text \<open>Python's truth value of a JSON value, as \<open>not quantity\<close> tests it.\<close>

fun truthy :: "json \<Rightarrow> bool" where
  "truthy JNull = False"
| "truthy (JBool b) = b"
| "truthy (JInt i) = (i \<noteq> 0)"
| "truthy (JStr s) = (s \<noteq> [])"

text \<open>
  The number Python computes with: \<open>bool\<close> is a subclass of \<open>int\<close> (\<open>True\<close> is 1).
  Comparing or subtracting a string or \<open>None\<close> and an \<open>int\<close> raises \<open>TypeError\<close>,
  which is \<open>None\<close> here.
\<close>

fun py_number :: "json \<Rightarrow> int option" where
  "py_number JNull = None"
| "py_number (JBool b) = Some (if b then 1 else 0)"
| "py_number (JInt i) = Some i"
| "py_number (JStr s) = None"

text \<open>
  Every \<open>format_error(message, status)\<close> of the four routes, one constructor for each
  message. \<open>Insufficient_stock\<close> carries the two values the message prints: the
  available stock and the requested quantity. \<open>Failed\<close> is the response of the outer
  \<open>except Exception\<close> handler.
\<close>

datatype error =
    Is_required string
  | Name_and_SKU_are_required
  | Price_must_be_greater_than_0
  | Purchasing_price_cannot_be_negative
  | Stock_quantity_cannot_be_negative
  | SKU_already_exists
  | Category_not_found
  | Product_not_found
  | Name_cannot_be_empty
  | SKU_cannot_be_empty
  | Min_stock_level_cannot_be_negative
  | No_fields_to_update
  | Product_id_and_quantity_are_required
  | Quantity_must_be_greater_than_0
  | Insufficient_stock int json
  | Failed

fun status_code :: "error \<Rightarrow> nat" where
  "status_code Category_not_found = 404"
| "status_code Product_not_found = 404"
| "status_code Failed = 500"
| "status_code _ = 400"

text \<open>
  The body of \<open>POST /api/products\<close> and \<open>PUT /api/products/id\<close>: \<open>None\<close> is a key
  that is absent from the body. A present field holds the value after the handler's
  conversion (\<open>float(...)\<close>, \<open>int(...)\<close>); the handlers convert before the first write,
  so a body on which a conversion raises changes nothing.
\<close>

record product_fields =
  f_name :: "string option"
  f_sku :: "string option"
  f_category_id :: "int option"
  f_price :: "real option"
  f_purchasing_price :: "real option"
  f_stock_quantity :: "int option"
  f_min_stock_level :: "int option"

record sale_response =
  r_sale_id :: int
  r_remaining_stock :: int

section \<open>Helpers\<close>

text \<open>
  \<open>str.strip()\<close> removes the characters \<open>str.isspace\<close> accepts. Below 256 these
  are the codes 9 to 13, 28 to 32, 133 (next line) and 160 (no-break space).
\<close>

definition is_space :: "char \<Rightarrow> bool" where
  "is_space c =
     (c \<in> set [CHR 0x09, CHR 0x0A, CHR 0x0B, CHR 0x0C, CHR 0x0D,
                CHR 0x1C, CHR 0x1D, CHR 0x1E, CHR 0x1F, CHR 0x20, CHR 0x85, CHR 0xA0])"

definition strip :: "string \<Rightarrow> string" where
  "strip s = rev (dropWhile is_space (rev (dropWhile is_space s)))"

text \<open>The decimal text of an integer, as an f-string prints it.\<close>

fun string_of_nat :: "nat \<Rightarrow> string" where
  "string_of_nat n =
     (if n < 10 then [''0123456789'' ! n]
      else string_of_nat (n div 10) @ [''0123456789'' ! (n mod 10)])"

declare string_of_nat.simps [simp del]

definition string_of_int :: "int \<Rightarrow> string" where
  "string_of_int i =
     (if i < 0 then CHR ''-'' # string_of_nat (nat (- i)) else string_of_nat (nat i))"

text \<open>
  \<open>SELECT ... FROM products WHERE id = ?\<close> followed by \<open>fetchone()\<close>. A key outside
  64 bits cannot be bound: the handlers answer through their \<open>except Exception\<close>
  (\<open>Failed\<close>). The table holds no such key, so in each handler this is the case of a
  lookup that finds no row.
\<close>

definition fetch_product :: "db \<Rightarrow> int \<Rightarrow> product option" where
  "fetch_product st product_id = find (\<lambda>p. p_id p = product_id) (products st)"

text \<open>
  \<open>UPDATE products SET stock_quantity = ?, updated_at = CURRENT_TIMESTAMP WHERE id = ?\<close>
\<close>

definition update_stock :: "timestamp \<Rightarrow> int \<Rightarrow> int \<Rightarrow> product list \<Rightarrow> product list" where
  "update_stock now product_id new_stock rows =
     map (\<lambda>p. if p_id p = product_id
               then p\<lparr>p_stock_quantity := new_stock, p_updated_at := now\<rparr> else p) rows"

text \<open>
  \<open>INSERT INTO stock_logs (product_id, change_amount, reason, timestamp)
  VALUES (?, ?, ?, CURRENT_TIMESTAMP)\<close>
\<close>

definition insert_stock_log :: "timestamp \<Rightarrow> int \<Rightarrow> int \<Rightarrow> string \<Rightarrow> db \<Rightarrow> db" where
  "insert_stock_log now product_id change_amount reason st =
     st\<lparr>stock_logs := stock_logs st @
          [\<lparr>l_id = lastrowid (map l_id (stock_logs st)), l_product_id = product_id,
            l_change_amount = change_amount, l_reason = reason, l_timestamp = now\<rparr>]\<rparr>"

section \<open>Sales: \<open>add_sale\<close>\<close>

text \<open>
  \<open>POST /api/add-sale\<close>. \<open>product_id\<close> is an integer or absent; \<open>quantity\<close> is the JSON
  value of the body. The result is the response and the store after the request.
  The response's \<open>message\<close> and rounded \<open>total_price\<close> are presentation and left out.
\<close>

definition add_sale ::
  "timestamp \<Rightarrow> db \<Rightarrow> int option \<Rightarrow> json \<Rightarrow> (error + sale_response) \<times> db" where
  "add_sale now st product_id quantity =
     (case product_id of
        None \<Rightarrow> (Inl Product_id_and_quantity_are_required, st)
      | Some pid \<Rightarrow>
          if pid = 0 \<or> \<not> truthy quantity
          then (Inl Product_id_and_quantity_are_required, st)
          else (case py_number quantity of
             None \<Rightarrow> (Inl Failed, st)
           | Some q \<Rightarrow>
               if q \<le> 0 then (Inl Quantity_must_be_greater_than_0, st)
               else (case fetch_product st pid of
                  None \<Rightarrow> (Inl (if fits_int64 pid then Product_not_found else Failed), st)
                | Some row \<Rightarrow>
                    let current_stock = p_stock_quantity row;
                        price = p_price row
                    in if current_stock < q
                       then (Inl (Insufficient_stock current_stock quantity), st)
                       else
                         let total_price = price * of_int q;
                             new_stock = current_stock - q;
                             sale_id = lastrowid (map s_id (sales st));
                             st1 = st\<lparr>products := update_stock now pid new_stock (products st)\<rparr>;
                             st2 = st1\<lparr>sales := sales st1 @
                                     [\<lparr>s_id = sale_id, s_product_id = pid, s_quantity = q,
                                       s_total_price = total_price, s_sale_date = now\<rparr>]\<rparr>;
                             st3 = insert_stock_log now pid (- q)
                                     (''Sale #'' @ string_of_int sale_id) st2
                         in (Inr \<lparr>r_sale_id = sale_id, r_remaining_stock = new_stock\<rparr>,
                             st3))))"

section \<open>Stock management: \<open>restock\<close>\<close>

text \<open>
  \<open>POST /api/restock\<close>. \<open>reason\<close> is \<open>None\<close> when the body has no such key, and the
  handler then writes \<open>Manual restock\<close>. The successful response carries \<open>new_stock\<close>.
  The \<open>UPDATE\<close> binds \<open>new_stock\<close> and the \<open>INSERT\<close> binds \<open>quantity\<close>: when one of
  them is outside 64 bits the handler rolls back and the outer handler answers
  \<open>Failed\<close>.
\<close>

definition restock ::
  "timestamp \<Rightarrow> db \<Rightarrow> int option \<Rightarrow> json \<Rightarrow> string option \<Rightarrow> (error + int) \<times> db" where
  "restock now st product_id quantity reason_field =
     (let reason = (case reason_field of None \<Rightarrow> ''Manual restock'' | Some r \<Rightarrow> r) in
      case product_id of
        None \<Rightarrow> (Inl Product_id_and_quantity_are_required, st)
      | Some pid \<Rightarrow>
          if pid = 0 \<or> \<not> truthy quantity
          then (Inl Product_id_and_quantity_are_required, st)
          else (case py_number quantity of
             None \<Rightarrow> (Inl Failed, st)
           | Some q \<Rightarrow>
               if q \<le> 0 then (Inl Quantity_must_be_greater_than_0, st)
               else (case fetch_product st pid of
                  None \<Rightarrow> (Inl (if fits_int64 pid then Product_not_found else Failed), st)
                | Some row \<Rightarrow>
                    let current_stock = p_stock_quantity row;
                        new_stock = current_stock + q
                    in if \<not> fits_int64 new_stock \<or> \<not> fits_int64 q then (Inl Failed, st)
                       else
                         let st1 = st\<lparr>products :=
                                     update_stock now pid new_stock (products st)\<rparr>;
                             st2 = insert_stock_log now pid q reason st1
                         in (Inr new_stock, st2))))"

section \<open>Products: \<open>create_product\<close> and \<open>update_product\<close>\<close>

text \<open>
  The two exceptions \<open>cursor.execute\<close> raises on the statements of these handlers.
\<close>

datatype store_error = IntegrityError | OverflowError

text \<open>
  The \<open>INSERT INTO products\<close> of \<open>create_product\<close>, as the store executes it. The
  integer parameters are bound first (\<open>OverflowError\<close>); the column \<open>sku\<close> is
  \<open>UNIQUE\<close>, and the statement raises \<open>sqlite3.IntegrityError\<close> when a row with
  that sku exists. Otherwise the row is appended under a new key.
\<close>

definition insert_product ::
  "timestamp \<Rightarrow> db \<Rightarrow> string \<Rightarrow> string \<Rightarrow> int \<Rightarrow> real \<Rightarrow> real \<Rightarrow> int \<Rightarrow> int \<Rightarrow>
     store_error + int \<times> db" where
  "insert_product now st name sku category_id price purchasing_price stock_quantity
       min_stock_level =
     (if \<not> fits_int64 category_id \<or> \<not> fits_int64 stock_quantity \<or>
         \<not> fits_int64 min_stock_level
      then Inl OverflowError
      else if list_ex (\<lambda>p. p_sku p = sku) (products st) then Inl IntegrityError
      else
        let product_id = lastrowid (map p_id (products st)) in
        Inr (product_id,
             st\<lparr>products := products st @
                  [\<lparr>p_id = product_id, p_name = name, p_sku = sku,
                    p_category_id = category_id, p_price = price,
                    p_purchasing_price = purchasing_price,
                    p_stock_quantity = stock_quantity,
                    p_min_stock_level = min_stock_level,
                    p_created_at = now, p_updated_at = now\<rparr>]\<rparr>))"

text \<open>
  The writes of \<open>create_product\<close> (the insert, the \<open>Initial stock\<close> log entry, the
  commit). The handler of \<open>sqlite3.IntegrityError\<close> rolls back and answers
  \<open>SKU already exists\<close>; an \<open>OverflowError\<close> reaches the outer handler, and nothing
  was written.
\<close>

definition create_product_write ::
  "timestamp \<Rightarrow> db \<Rightarrow> string \<Rightarrow> string \<Rightarrow> int \<Rightarrow> real \<Rightarrow> real \<Rightarrow> int \<Rightarrow> int \<Rightarrow>
     (error + int) \<times> db" where
  "create_product_write now st name sku category_id price purchasing_price stock_quantity
       min_stock_level =
     (case insert_product now st name sku category_id price purchasing_price
             stock_quantity min_stock_level of
        Inl IntegrityError \<Rightarrow> (Inl SKU_already_exists, st)
      | Inl OverflowError \<Rightarrow> (Inl Failed, st)
      | Inr (product_id, st1) \<Rightarrow>
          (Inr product_id,
           if stock_quantity > 0
           then insert_stock_log now product_id stock_quantity ''Initial stock'' st1
           else st1))"

text \<open>
  The part of \<open>create_product\<close> before its first write: the required fields, the
  conversions and defaults, the checks of the values, and the two lookups (the sku,
  then the category, whose key is bound as a parameter). The result is the error
  response, or the seven values of the \<open>INSERT\<close>.
\<close>

definition create_product_check ::
  "db \<Rightarrow> product_fields \<Rightarrow> error + string \<times> string \<times> int \<times> real \<times> real \<times> int \<times> int" where
  "create_product_check st data =
     (case f_name data of
        None \<Rightarrow> Inl (Is_required ''name'')
      | Some raw_name \<Rightarrow>
     (case f_sku data of
        None \<Rightarrow> Inl (Is_required ''sku'')
      | Some raw_sku \<Rightarrow>
     (case f_category_id data of
        None \<Rightarrow> Inl (Is_required ''category_id'')
      | Some category_id \<Rightarrow>
     (case f_price data of
        None \<Rightarrow> Inl (Is_required ''price'')
      | Some price \<Rightarrow>
     (case f_purchasing_price data of
        None \<Rightarrow> Inl (Is_required ''purchasing_price'')
      | Some purchasing_price \<Rightarrow>
        let name = strip raw_name;
            sku = strip raw_sku;
            stock_quantity = (case f_stock_quantity data of None \<Rightarrow> 0 | Some n \<Rightarrow> n);
            min_stock_level = (case f_min_stock_level data of None \<Rightarrow> 5 | Some m \<Rightarrow> m)
        in if name = [] \<or> sku = [] then Inl Name_and_SKU_are_required
           else if price \<le> 0 then Inl Price_must_be_greater_than_0
           else if purchasing_price < 0 then Inl Purchasing_price_cannot_be_negative
           else if stock_quantity < 0 then Inl Stock_quantity_cannot_be_negative
           else if list_ex (\<lambda>p. p_sku p = sku) (products st) then Inl SKU_already_exists
           else if \<not> fits_int64 category_id then Inl Failed
           else if \<not> list_ex (\<lambda>c. c_id c = category_id) (categories st)
             then Inl Category_not_found
           else Inr (name, sku, category_id, price, purchasing_price, stock_quantity,
                     min_stock_level))))))"

text \<open>\<open>POST /api/products\<close>. The successful response carries \<open>product_id\<close>.\<close>

definition create_product ::
  "timestamp \<Rightarrow> db \<Rightarrow> product_fields \<Rightarrow> (error + int) \<times> db" where
  "create_product now st data =
     (case create_product_check st data of
        Inl e \<Rightarrow> (Inl e, st)
      | Inr (name, sku, category_id, price, purchasing_price, stock_quantity,
             min_stock_level) \<Rightarrow>
          create_product_write now st name sku category_id price purchasing_price
            stock_quantity min_stock_level)"

text \<open>
  The same handler when other connections commit while it runs. \<open>sqlite3\<close> opens
  the transaction at the \<open>INSERT\<close>; the lookups before it run outside a
  transaction. So the lookups read the store \<open>st\<close>, and the writes run on the store
  \<open>st'\<close> that the other connections have left by then.
\<close>

definition create_product_interleaved ::
  "timestamp \<Rightarrow> db \<Rightarrow> db \<Rightarrow> product_fields \<Rightarrow> (error + int) \<times> db" where
  "create_product_interleaved now st st' data =
     (case create_product_check st data of
        Inl e \<Rightarrow> (Inl e, st)
      | Inr (name, sku, category_id, price, purchasing_price, stock_quantity,
             min_stock_level) \<Rightarrow>
          create_product_write now st' name sku category_id price purchasing_price
            stock_quantity min_stock_level)"

text \<open>
  The checks of \<open>update_product\<close> in the order of the source, each on a field the body
  provides: the first that fails is the response. The lookup of the category binds
  its key, and a key outside 64 bits ends in the outer handler.
\<close>

definition update_product_check :: "db \<Rightarrow> int \<Rightarrow> product_fields \<Rightarrow> error option" where
  "update_product_check st product_id data =
     (if (case f_name data of None \<Rightarrow> False | Some raw \<Rightarrow> strip raw = [])
        then Some Name_cannot_be_empty
      else if (case f_sku data of None \<Rightarrow> False | Some raw \<Rightarrow> strip raw = [])
        then Some SKU_cannot_be_empty
      else if (case f_sku data of None \<Rightarrow> False
               | Some raw \<Rightarrow>
                   list_ex (\<lambda>p. p_sku p = strip raw \<and> p_id p \<noteq> product_id) (products st))
        then Some SKU_already_exists
      else if (case f_category_id data of None \<Rightarrow> False
               | Some category_id \<Rightarrow> \<not> fits_int64 category_id)
        then Some Failed
      else if (case f_category_id data of None \<Rightarrow> False
               | Some category_id \<Rightarrow>
                   \<not> list_ex (\<lambda>c. c_id c = category_id) (categories st))
        then Some Category_not_found
      else if (case f_price data of None \<Rightarrow> False | Some price \<Rightarrow> price \<le> 0)
        then Some Price_must_be_greater_than_0
      else if (case f_purchasing_price data of None \<Rightarrow> False | Some pp \<Rightarrow> pp < 0)
        then Some Purchasing_price_cannot_be_negative
      else if (case f_stock_quantity data of None \<Rightarrow> False | Some n \<Rightarrow> n < 0)
        then Some Stock_quantity_cannot_be_negative
      else if (case f_min_stock_level data of None \<Rightarrow> False | Some m \<Rightarrow> m < 0)
        then Some Min_stock_level_cannot_be_negative
      else if f_name data = None \<and> f_sku data = None \<and> f_category_id data = None \<and>
              f_price data = None \<and> f_purchasing_price data = None \<and>
              f_stock_quantity data = None \<and> f_min_stock_level data = None
        then Some No_fields_to_update
      else None)"

text \<open>
  The \<open>UPDATE products SET ... WHERE id = ?\<close> that the handler assembles: every
  provided column, and \<open>updated_at\<close>.
\<close>

definition set_fields :: "timestamp \<Rightarrow> product_fields \<Rightarrow> product \<Rightarrow> product" where
  "set_fields now data p =
     p\<lparr>p_name := (case f_name data of None \<Rightarrow> p_name p | Some raw \<Rightarrow> strip raw),
       p_sku := (case f_sku data of None \<Rightarrow> p_sku p | Some raw \<Rightarrow> strip raw),
       p_category_id := (case f_category_id data of None \<Rightarrow> p_category_id p | Some c \<Rightarrow> c),
       p_price := (case f_price data of None \<Rightarrow> p_price p | Some x \<Rightarrow> x),
       p_purchasing_price :=
         (case f_purchasing_price data of None \<Rightarrow> p_purchasing_price p | Some x \<Rightarrow> x),
       p_stock_quantity :=
         (case f_stock_quantity data of None \<Rightarrow> p_stock_quantity p | Some n \<Rightarrow> n),
       p_min_stock_level :=
         (case f_min_stock_level data of None \<Rightarrow> p_min_stock_level p | Some m \<Rightarrow> m),
       p_updated_at := now\<rparr>"

text \<open>
  The integer parameters of that \<open>UPDATE\<close> besides the key: the provided
  \<open>stock_quantity\<close> and \<open>min_stock_level\<close>.
\<close>

definition update_binds :: "product_fields \<Rightarrow> bool" where
  "update_binds data =
     ((case f_stock_quantity data of None \<Rightarrow> True | Some n \<Rightarrow> fits_int64 n) \<and>
      (case f_min_stock_level data of None \<Rightarrow> True | Some m \<Rightarrow> fits_int64 m))"

text \<open>
  \<open>PUT /api/products/id\<close>. The successful response carries no data. An
  \<open>OverflowError\<close> of the \<open>UPDATE\<close>, or of the \<open>INSERT\<close> of the log entry (which
  binds \<open>stock_change\<close>), ends in the outer handler before the commit: nothing is
  written.
\<close>

definition update_product ::
  "timestamp \<Rightarrow> db \<Rightarrow> int \<Rightarrow> product_fields \<Rightarrow> (error + unit) \<times> db" where
  "update_product now st product_id data =
     (case fetch_product st product_id of
        None \<Rightarrow> (Inl (if fits_int64 product_id then Product_not_found else Failed), st)
      | Some row \<Rightarrow>
          (case update_product_check st product_id data of
             Some e \<Rightarrow> (Inl e, st)
           | None \<Rightarrow>
               if \<not> update_binds data then (Inl Failed, st)
               else
                 let st1 = st\<lparr>products :=
                             map (\<lambda>p. if p_id p = product_id then set_fields now data p else p)
                               (products st)\<rparr>
                 in (case f_stock_quantity data of
                       None \<Rightarrow> (Inr (), st1)
                     | Some stock_quantity \<Rightarrow>
                         let current_stock = p_stock_quantity row;
                             stock_change = stock_quantity - current_stock
                         in if stock_change \<noteq> 0
                            then if \<not> fits_int64 stock_change then (Inl Failed, st)
                                 else (Inr (),
                                       insert_stock_log now product_id stock_change
                                         (if stock_change > 0 then ''Stock adjustment''
                                          else ''Stock reduction'') st1)
                            else (Inr (), st1))))"

section \<open>Reports: the sales trend of \<open>dashboard_stats\<close> and \<open>get_sales\<close>\<close>






record sale_row =
  sr_id :: int
  sr_product_id :: int
  sr_product_name :: string
  sr_sku :: string
  sr_quantity :: int
  sr_total_price :: real
  sr_sale_date :: timestamp

text \<open>\<open>FROM sales s JOIN products p ON s.product_id = p.id\<close>, in the order of the sales.\<close>

definition sales_join_products :: "db \<Rightarrow> sale_row list" where
  "sales_join_products st =
     concat (map (\<lambda>s. map (\<lambda>p. \<lparr>sr_id = s_id s, sr_product_id = s_product_id s,
                                  sr_product_name = p_name p, sr_sku = p_sku p,
                                  sr_quantity = s_quantity s,
                                  sr_total_price = s_total_price s,
                                  sr_sale_date = s_sale_date s\<rparr>)
                          (filter (\<lambda>p. s_product_id s = p_id p) (products st)))
                 (sales st))"

text \<open>
  \<open>GET /api/sales\<close>: the join, \<open>ORDER BY s.sale_date DESC LIMIT 100\<close>. The handler
  reads nothing from the request. SQLite leaves the order of rows with equal
  \<open>sale_date\<close> open; the sort used here keeps them in the order of the join.
\<close>

definition get_sales :: "db \<Rightarrow> sale_row list" where
  "get_sales st = take 100 (sort_key (\<lambda>r. - sr_sale_date r) (sales_join_products st))"

text \<open>
  The specification's \<open>SalesHistory(limit)\<close>, written from its words for comparison
  with \<open>get_sales\<close>: the \<open>limit\<close> most recent sale records, joined with the product,
  descending by time.
\<close>

definition SalesHistory_spec :: "nat \<Rightarrow> db \<Rightarrow> sale_row list" where
  "SalesHistory_spec limit st =
     take limit (sort_key (\<lambda>r. - sr_sale_date r) (sales_join_products st))"

section \<open>Invariants\<close>

text \<open>The sum of \<open>change_amount\<close> over the stock log entries of a product.\<close>

definition ledger_sum :: "db \<Rightarrow> int \<Rightarrow> int" where
  "ledger_sum st product_id =
     sum_list (map l_change_amount
                 (filter (\<lambda>l. l_product_id l = product_id) (stock_logs st)))"

text \<open>
  Every product's stock is the sum of its log entries, and every log entry belongs to
  a product of the table.
\<close>

definition ledger_consistent :: "db \<Rightarrow> bool" where
  "ledger_consistent st =
     (list_all (\<lambda>p. p_stock_quantity p = ledger_sum st (p_id p)) (products st) \<and>
      list_all (\<lambda>l. list_ex (\<lambda>p. p_id p = l_product_id l) (products st)) (stock_logs st))"

definition stock_nonneg :: "db \<Rightarrow> bool" where
  "stock_nonneg st = list_all (\<lambda>p. 0 \<le> p_stock_quantity p) (products st)"

section \<open>Example states\<close>

text \<open>
  The example of the specification: one product with price 10.00 and stock 5, created
  through \<open>create_product\<close> at time 100 on the fresh database.
\<close>

definition example_row :: product where
  "example_row =
     \<lparr>p_id = 1, p_name = ''Widget'', p_sku = ''W-1'', p_category_id = 1, p_price = 10,
      p_purchasing_price = 4, p_stock_quantity = 5, p_min_stock_level = 5,
      p_created_at = 100, p_updated_at = 100\<rparr>"

definition example_db :: db where
  "example_db =
     init_db\<lparr>products := [example_row],
             stock_logs := [\<lparr>l_id = 1, l_product_id = 1, l_change_amount = 5,
                             l_reason = ''Initial stock'', l_timestamp = 100\<rparr>]\<rparr>"

text \<open>
  The request that creates the example product, and the state after the sale of 3
  units at time 200.
\<close>

definition example_fields :: product_fields where
  "example_fields =
     \<lparr>f_name = Some ''Widget'', f_sku = Some '' W-1 '', f_category_id = Some 1,
      f_price = Some 10, f_purchasing_price = Some 4, f_stock_quantity = Some 5,
      f_min_stock_level = None\<rparr>"

definition example_sold_row :: product where
  "example_sold_row = example_row\<lparr>p_stock_quantity := 2, p_updated_at := 200\<rparr>"

definition example_db_sold :: db where
  "example_db_sold =
     example_db\<lparr>products := [example_sold_row],
       sales := [\<lparr>s_id = 1, s_product_id = 1, s_quantity = 3, s_total_price = 30,
                  s_sale_date = 200\<rparr>],
       stock_logs := [\<lparr>l_id = 1, l_product_id = 1, l_change_amount = 5,
                       l_reason = ''Initial stock'', l_timestamp = 100\<rparr>,
                      \<lparr>l_id = 2, l_product_id = 1, l_change_amount = - 3,
                       l_reason = ''Sale #1'', l_timestamp = 200\<rparr>]\<rparr>"

text \<open>Request bodies: a negative stock, a stock alone, and no stock at all.\<close>

definition example_negative_fields :: product_fields where
  "example_negative_fields = example_fields\<lparr>f_stock_quantity := Some (- 1)\<rparr>"


definition example_default_fields :: product_fields where
  "example_default_fields = example_fields\<lparr>f_stock_quantity := None\<rparr>"

text \<open>
  A request without \<open>stock_quantity\<close> whose \<open>min_stock_level\<close> is \<open>2 ^ 63\<close>, one
  above the largest \<open>INTEGER\<close> of the store.
\<close>

definition example_overflow_fields :: product_fields where
  "example_overflow_fields =
     example_default_fields\<lparr>f_min_stock_level := Some 9223372036854775808\<rparr>"

text \<open>
  The state after a second sale, of one unit at time 400, and its two sales as
  \<open>get_sales\<close> lists them.
\<close>

definition example_db_two_sales :: db where
  "example_db_two_sales =
     example_db_sold\<lparr>sales :=
       [\<lparr>s_id = 1, s_product_id = 1, s_quantity = 3, s_total_price = 30, s_sale_date = 200\<rparr>,
        \<lparr>s_id = 2, s_product_id = 1, s_quantity = 1, s_total_price = 10,
          s_sale_date = 400\<rparr>]\<rparr>"

definition example_sale_rows :: "sale_row list" where
  "example_sale_rows =
     [\<lparr>sr_id = 2, sr_product_id = 1, sr_product_name = ''Widget'', sr_sku = ''W-1'',
       sr_quantity = 1, sr_total_price = 10, sr_sale_date = 400\<rparr>,
      \<lparr>sr_id = 1, sr_product_id = 1, sr_product_name = ''Widget'', sr_sku = ''W-1'',
       sr_quantity = 3, sr_total_price = 30, sr_sale_date = 200\<rparr>]"

section \<open>Properties\<close>

subsection \<open>Lookups and updates of rows\<close>

lemma fetch_product_SomeD:
  "fetch_product st pid = Some row \<Longrightarrow> row \<in> set (products st) \<and> p_id row = pid"
  by (auto simp: fetch_product_def find_Some_iff in_set_conv_nth)

lemma find_update_rows:
  assumes "\<And>p. p_id (g p) = p_id p"
  shows "find (\<lambda>p. p_id p = pid) rows = Some row \<Longrightarrow>
         find (\<lambda>p. p_id p = pid) (map (\<lambda>p. if p_id p = pid then g p else p) rows) =
           Some (g row)"
  using assms by (induction rows) (auto split: if_splits)

lemma fetch_update_stock:
  "fetch_product st pid = Some row \<Longrightarrow>
   fetch_product (st\<lparr>products := update_stock now pid n (products st)\<rparr>) pid =
     Some (row\<lparr>p_stock_quantity := n, p_updated_at := now\<rparr>)"
  unfolding fetch_product_def update_stock_def
  using find_update_rows
          [of "\<lambda>p. p\<lparr>p_stock_quantity := n, p_updated_at := now\<rparr>" pid "products st" row]
  by simp

subsection \<open>The example state\<close>

lemma example_db_tables:
  "products example_db = [example_row]"
  "sales example_db = []"
  "stock_logs example_db =
     [\<lparr>l_id = 1, l_product_id = 1, l_change_amount = 5, l_reason = ''Initial stock'',
       l_timestamp = 100\<rparr>]"
  by (simp_all add: example_db_def init_db_def)

lemma example_db_fetch: "fetch_product example_db 1 = Some example_row"
  by (simp add: fetch_product_def example_db_tables example_row_def)

lemma string_of_int_1: "string_of_int 1 = ''1''"
  by (simp add: string_of_int_def string_of_nat.simps)

subsection \<open>Recording a sale\<close>

text \<open>
  C2. A sale of a positive quantity \<open>q\<close> that exceeds the current stock of an existing
  product is refused with \<open>Insufficient stock\<close> (status 400); the response carries the
  available stock and the requested quantity, and the store after the request is the
  store before it: no product, sale or stock log row is written.
\<close>

theorem add_sale_insufficient_stock:
  assumes "fetch_product st pid = Some row" and "pid \<noteq> 0" and "0 < q"
    and "p_stock_quantity row < q"
  shows "add_sale now st (Some pid) (JInt q) =
           (Inl (Insufficient_stock (p_stock_quantity row) (JInt q)), st) \<and>
         status_code (Insufficient_stock (p_stock_quantity row) (JInt q)) = 400"
  using assms by (simp add: add_sale_def)

theorem add_sale_insufficient_stock_witness:
  "fetch_product example_db 1 = Some example_row \<and> (1::int) \<noteq> 0 \<and> (0::int) < 6 \<and>
   p_stock_quantity example_row < 6 \<and>
   add_sale 200 example_db (Some 1) (JInt 6) =
     (Inl (Insufficient_stock 5 (JInt 6)), example_db)"
  using add_sale_insufficient_stock [of example_db 1 example_row 6 200]
  by (simp add: fetch_product_def example_db_def example_row_def)

text \<open>
  C3. A sale of a positive quantity \<open>q\<close> that does not exceed the stock \<open>s\<close> of an
  existing product with price \<open>u\<close> succeeds with exactly these effects: the stock of
  the product becomes \<open>s - q\<close>; one row is appended to \<open>sales\<close> with quantity \<open>q\<close>
  and \<open>total_price = u * q\<close>; one row is appended to \<open>stock_logs\<close> with
  \<open>change_amount = - q\<close> and the reason \<open>Sale #\<close> followed by the sale's id; the
  response carries that id and the remaining stock \<open>s - q\<close>.
\<close>

theorem add_sale_success:
  assumes "fetch_product st pid = Some row" and "pid \<noteq> 0" and "0 < q"
    and "q \<le> p_stock_quantity row"
  shows "fst (add_sale now st (Some pid) (JInt q)) =
           Inr \<lparr>r_sale_id = lastrowid (map s_id (sales st)),
                r_remaining_stock = p_stock_quantity row - q\<rparr> \<and>
         products (snd (add_sale now st (Some pid) (JInt q))) =
           update_stock now pid (p_stock_quantity row - q) (products st) \<and>
         fetch_product (snd (add_sale now st (Some pid) (JInt q))) pid =
           Some (row\<lparr>p_stock_quantity := p_stock_quantity row - q, p_updated_at := now\<rparr>) \<and>
         sales (snd (add_sale now st (Some pid) (JInt q))) =
           sales st @
             [\<lparr>s_id = lastrowid (map s_id (sales st)), s_product_id = pid, s_quantity = q,
               s_total_price = p_price row * of_int q, s_sale_date = now\<rparr>] \<and>
         stock_logs (snd (add_sale now st (Some pid) (JInt q))) =
           stock_logs st @
             [\<lparr>l_id = lastrowid (map l_id (stock_logs st)), l_product_id = pid,
               l_change_amount = - q,
               l_reason = ''Sale #'' @ string_of_int (lastrowid (map s_id (sales st))),
               l_timestamp = now\<rparr>] \<and>
         categories (snd (add_sale now st (Some pid) (JInt q))) = categories st"
proof -
  let ?new = "p_stock_quantity row - q"
  let ?sid = "lastrowid (map s_id (sales st))"
  have run: "add_sale now st (Some pid) (JInt q) =
      (Inr \<lparr>r_sale_id = ?sid, r_remaining_stock = ?new\<rparr>,
       insert_stock_log now pid (- q) (''Sale #'' @ string_of_int ?sid)
         (st\<lparr>products := update_stock now pid ?new (products st),
             sales := sales st @
               [\<lparr>s_id = ?sid, s_product_id = pid, s_quantity = q,
                 s_total_price = p_price row * of_int q, s_sale_date = now\<rparr>]\<rparr>))"
    using assms by (simp add: add_sale_def Let_def)
  have look: "fetch_product (st\<lparr>products := update_stock now pid ?new (products st)\<rparr>) pid =
      Some (row\<lparr>p_stock_quantity := ?new, p_updated_at := now\<rparr>)"
    using assms(1) by (rule fetch_update_stock)
  show ?thesis
    using look by (simp add: run insert_stock_log_def fetch_product_def)
qed

theorem add_sale_success_witness:
  "fetch_product example_db 1 = Some example_row \<and> (1::int) \<noteq> 0 \<and> (0::int) < 3 \<and>
   3 \<le> p_stock_quantity example_row \<and>
   fst (add_sale 200 example_db (Some 1) (JInt 3)) =
     Inr \<lparr>r_sale_id = 1, r_remaining_stock = 2\<rparr> \<and>
   sales (snd (add_sale 200 example_db (Some 1) (JInt 3))) =
     [\<lparr>s_id = 1, s_product_id = 1, s_quantity = 3, s_total_price = 30, s_sale_date = 200\<rparr>] \<and>
   stock_logs (snd (add_sale 200 example_db (Some 1) (JInt 3))) =
     [\<lparr>l_id = 1, l_product_id = 1, l_change_amount = 5, l_reason = ''Initial stock'',
       l_timestamp = 100\<rparr>,
      \<lparr>l_id = 2, l_product_id = 1, l_change_amount = - 3, l_reason = ''Sale #1'',
       l_timestamp = 200\<rparr>] \<and>
   fetch_product (snd (add_sale 200 example_db (Some 1) (JInt 3))) 1 =
     Some (example_row\<lparr>p_stock_quantity := 2, p_updated_at := 200\<rparr>)"
proof -
  have stock: "p_stock_quantity example_row = 5" and price: "p_price example_row = 10"
    by (simp_all add: example_row_def)
  have "3 \<le> p_stock_quantity example_row"
    by (simp add: stock)
  from add_sale_success [OF example_db_fetch _ _ this, of 200]
  show ?thesis
    by (simp add: example_db_fetch example_db_tables stock price lastrowid_def string_of_int_1)
qed

subsection \<open>The stock ledger\<close>

text \<open>
  Each writing route pairs its write of \<open>stock_quantity\<close> with a row of
  \<open>stock_logs\<close> of the same amount. For the requests represented here (the
  quantity of a sale or restock an integer or a boolean) every route keeps
  \<open>ledger_consistent\<close>.
\<close>

lemma insert_stock_log_tables:
  "products (insert_stock_log now pid c r st) = products st"
  "sales (insert_stock_log now pid c r st) = sales st"
  "categories (insert_stock_log now pid c r st) = categories st"
  "stock_logs (insert_stock_log now pid c r st) =
     stock_logs st @ [\<lparr>l_id = lastrowid (map l_id (stock_logs st)), l_product_id = pid,
                       l_change_amount = c, l_reason = r, l_timestamp = now\<rparr>]"
  by (simp_all add: insert_stock_log_def)

lemma ledger_consistent_iff:
  "ledger_consistent st \<longleftrightarrow>
     (\<forall>p\<in>set (products st). p_stock_quantity p = ledger_sum st (p_id p)) \<and>
     (\<forall>l\<in>set (stock_logs st). l_product_id l \<in> p_id ` set (products st))"
  by (simp add: ledger_consistent_def list_all_iff list_ex_iff image_iff Bex_def) metis

lemma ledger_consistent_adjust:
  assumes inv: "ledger_consistent st"
    and fetch: "fetch_product st pid = Some row"
    and rows: "products st' = map (\<lambda>p. if p_id p = pid then g p else p) (products st)"
    and g_id: "\<And>p. p_id (g p) = p_id p"
    and g_stock: "\<And>p. p \<in> set (products st) \<Longrightarrow> p_id p = pid \<Longrightarrow> p_stock_quantity (g p) = n"
    and logs: "stock_logs st' = stock_logs st @ extra"
    and extra_pid: "\<And>l. l \<in> set extra \<Longrightarrow> l_product_id l = pid"
    and extra_sum: "sum_list (map l_change_amount extra) = n - p_stock_quantity row"
  shows "ledger_consistent st'"
proof -
  from fetch have row: "row \<in> set (products st)" "p_id row = pid"
    by (simp_all add: fetch_product_SomeD)
  from inv row have row_sum: "ledger_sum st pid = p_stock_quantity row"
    by (auto simp: ledger_consistent_iff)
  have "filter (\<lambda>l. l_product_id l = pid) extra = extra"
    using extra_pid by (simp add: filter_id_conv)
  then have sum_pid: "ledger_sum st' pid = n"
    using extra_sum row_sum by (simp add: ledger_sum_def logs)
  have sum_other: "ledger_sum st' x = ledger_sum st x" if "x \<noteq> pid" for x
  proof -
    have "filter (\<lambda>l. l_product_id l = x) extra = []"
      using extra_pid that by (auto simp: filter_empty_conv)
    then show ?thesis by (simp add: ledger_sum_def logs)
  qed
  have "map p_id (products st') = map p_id (products st)"
    unfolding rows by (simp add: g_id comp_def if_distrib [of p_id])
  then have ids: "p_id ` set (products st') = p_id ` set (products st)"
    by (metis set_map)
  have stocks: "p_stock_quantity p' = ledger_sum st' (p_id p')" if "p' \<in> set (products st')" for p'
  proof -
    from that obtain p where p: "p \<in> set (products st)"
      and p': "p' = (if p_id p = pid then g p else p)"
      unfolding rows by auto
    show ?thesis
    proof (cases "p_id p = pid")
      case True
      with p p' g_stock g_id sum_pid show ?thesis by simp
    next
      case False
      with p p' inv sum_other show ?thesis by (simp add: ledger_consistent_iff)
    qed
  qed
  have refs: "l_product_id l \<in> p_id ` set (products st')" if "l \<in> set (stock_logs st')" for l
  proof -
    from that logs have "l \<in> set (stock_logs st) \<or> l \<in> set extra" by auto
    then show ?thesis
    proof
      assume "l \<in> set (stock_logs st)"
      with inv ids show ?thesis by (simp add: ledger_consistent_iff)
    next
      assume "l \<in> set extra"
      then have "l_product_id l = pid" by (rule extra_pid)
      with row ids show ?thesis by (metis image_eqI)
    qed
  qed
  from stocks refs show ?thesis by (simp add: ledger_consistent_iff)
qed

lemma ledger_consistent_add_sale:
  assumes "ledger_consistent st"
  shows "ledger_consistent (snd (add_sale now st pid quantity))"
proof (cases "\<exists>r. fst (add_sale now st pid quantity) = Inr r")
  case False
  then have "snd (add_sale now st pid quantity) = st"
    by (auto simp: add_sale_def Let_def split: option.splits if_splits)
  with assms show ?thesis by simp
next
  case True
  then obtain i q row where pid: "pid = Some i" and q: "py_number quantity = Some q"
    and fetch: "fetch_product st i = Some row" and ok: "\<not> p_stock_quantity row < q"
    by (auto simp: add_sale_def Let_def split: option.splits if_splits)
  let ?st' = "snd (add_sale now st pid quantity)"
  from True pid q fetch ok
  have rows: "products ?st' = update_stock now i (p_stock_quantity row - q) (products st)"
    and logs: "stock_logs ?st' = stock_logs st @
       [\<lparr>l_id = lastrowid (map l_id (stock_logs st)), l_product_id = i, l_change_amount = - q,
         l_reason = ''Sale #'' @ string_of_int (lastrowid (map s_id (sales st))),
         l_timestamp = now\<rparr>]"
    by (auto simp: add_sale_def Let_def insert_stock_log_tables split: option.splits if_splits)
  show ?thesis
    by (rule ledger_consistent_adjust [OF assms fetch rows [unfolded update_stock_def] _ _ logs])
      auto
qed


lemma ledger_consistent_restock:
  assumes "ledger_consistent st"
  shows "ledger_consistent (snd (restock now st pid quantity reason))"
proof (cases "\<exists>r. fst (restock now st pid quantity reason) = Inr r")
  case False
  then have "snd (restock now st pid quantity reason) = st"
    by (auto simp: restock_def Let_def split: option.splits if_splits)
  with assms show ?thesis by simp
next
  case True
  then obtain i q row where pid: "pid = Some i" and q: "py_number quantity = Some q"
    and fetch: "fetch_product st i = Some row"
    by (auto simp: restock_def Let_def split: option.splits if_splits)
  let ?st' = "snd (restock now st pid quantity reason)"
  from True pid q fetch
  have rows: "products ?st' = update_stock now i (p_stock_quantity row + q) (products st)"
    and logs: "stock_logs ?st' = stock_logs st @
       [\<lparr>l_id = lastrowid (map l_id (stock_logs st)), l_product_id = i, l_change_amount = q,
         l_reason = (case reason of None \<Rightarrow> ''Manual restock'' | Some r \<Rightarrow> r),
         l_timestamp = now\<rparr>]"
    by (auto simp: restock_def Let_def insert_stock_log_tables split: option.splits if_splits)
  show ?thesis
    by (rule ledger_consistent_adjust [OF assms fetch rows [unfolded update_stock_def] _ _ logs])
      auto
qed

lemma set_fields_id: "p_id (set_fields now data p) = p_id p"
  by (simp add: set_fields_def)

lemma set_fields_stock:
  "p_stock_quantity (set_fields now data p) =
     (case f_stock_quantity data of None \<Rightarrow> p_stock_quantity p | Some n \<Rightarrow> n)"
  by (simp add: set_fields_def)

lemma update_product_result:
  "snd (update_product now st product_id data) = st \<and>
     (\<exists>e. fst (update_product now st product_id data) = Inl e) \<or>
   (\<exists>row. fetch_product st product_id = Some row \<and>
      update_product_check st product_id data = None \<and> update_binds data \<and>
      (case f_stock_quantity data of None \<Rightarrow> True
       | Some n \<Rightarrow> fits_int64 (n - p_stock_quantity row)) \<and>
      fst (update_product now st product_id data) = Inr () \<and>
      categories (snd (update_product now st product_id data)) = categories st \<and>
      sales (snd (update_product now st product_id data)) = sales st \<and>
      products (snd (update_product now st product_id data)) =
        map (\<lambda>p. if p_id p = product_id then set_fields now data p else p) (products st) \<and>
      stock_logs (snd (update_product now st product_id data)) =
        stock_logs st @
          (case f_stock_quantity data of
             None \<Rightarrow> []
           | Some n \<Rightarrow>
               if n = p_stock_quantity row then []
               else [\<lparr>l_id = lastrowid (map l_id (stock_logs st)), l_product_id = product_id,
                      l_change_amount = n - p_stock_quantity row,
                      l_reason = (if n - p_stock_quantity row > 0 then ''Stock adjustment''
                                  else ''Stock reduction''),
                      l_timestamp = now\<rparr>]))"
  by (auto simp: update_product_def Let_def insert_stock_log_tables fits_int64_def
        split: option.splits)

lemma ledger_consistent_update_product:
  assumes "ledger_consistent st"
  shows "ledger_consistent (snd (update_product now st product_id data))"
proof -
  let ?st' = "snd (update_product now st product_id data)"
  from update_product_result [of now st product_id data]
  show ?thesis
  proof (elim disjE conjE exE)
    assume "?st' = st"
    with assms show ?thesis by simp
  next
    fix row
    assume fetch: "fetch_product st product_id = Some row"
      and rows: "products ?st' =
        map (\<lambda>p. if p_id p = product_id then set_fields now data p else p) (products st)"
      and logs: "stock_logs ?st' = stock_logs st @
          (case f_stock_quantity data of
             None \<Rightarrow> []
           | Some n \<Rightarrow>
               if n = p_stock_quantity row then []
               else [\<lparr>l_id = lastrowid (map l_id (stock_logs st)), l_product_id = product_id,
                      l_change_amount = n - p_stock_quantity row,
                      l_reason = (if n - p_stock_quantity row > 0 then ''Stock adjustment''
                                  else ''Stock reduction''),
                      l_timestamp = now\<rparr>])"
        (is "_ = _ @ ?extra")
    let ?n = "case f_stock_quantity data of None \<Rightarrow> p_stock_quantity row | Some n \<Rightarrow> n"
    from fetch have row: "row \<in> set (products st)" "p_id row = product_id"
      by (simp_all add: fetch_product_SomeD)
    have same: "p_stock_quantity p = p_stock_quantity row"
      if "p \<in> set (products st)" "p_id p = product_id" for p
      using assms that row by (simp add: ledger_consistent_iff)
    show ?thesis
    proof (rule ledger_consistent_adjust [OF assms fetch rows set_fields_id _ logs, of ?n])
      fix p assume "p \<in> set (products st)" "p_id p = product_id"
      then show "p_stock_quantity (set_fields now data p) = ?n"
        by (simp add: set_fields_stock same split: option.splits)
    next
      fix l assume "l \<in> set ?extra"
      then show "l_product_id l = product_id"
        by (auto split: option.splits if_splits)
    next
      show "sum_list (map l_change_amount ?extra) = ?n - p_stock_quantity row"
        by (simp split: option.splits)
    qed
  qed
qed

lemma lastrowid_greater: "x \<in> set ids \<Longrightarrow> x < lastrowid ids"
proof -
  assume "x \<in> set ids"
  then have "x \<le> Max (set (0 # ids))" by simp
  also have "\<dots> = fold max ids 0" by (rule Max.set_eq_fold)
  finally show ?thesis by (simp add: lastrowid_def)
qed

lemma lastrowid_fresh: "lastrowid (map p_id rows) \<notin> p_id ` set rows"
  using lastrowid_greater [of "lastrowid (map p_id rows)" "map p_id rows"] by auto

lemma create_product_write_result:
  "create_product_write now st name sku category_id price purchasing_price n m =
     (if \<not> fits_int64 category_id \<or> \<not> fits_int64 n \<or> \<not> fits_int64 m
      then (Inl Failed, st)
      else if list_ex (\<lambda>p. p_sku p = sku) (products st) then (Inl SKU_already_exists, st)
      else (Inr (lastrowid (map p_id (products st))),
            st\<lparr>products := products st @
                 [\<lparr>p_id = lastrowid (map p_id (products st)), p_name = name, p_sku = sku,
                   p_category_id = category_id, p_price = price,
                   p_purchasing_price = purchasing_price, p_stock_quantity = n,
                   p_min_stock_level = m, p_created_at = now, p_updated_at = now\<rparr>],
               stock_logs := stock_logs st @
                 (if n > 0
                  then [\<lparr>l_id = lastrowid (map l_id (stock_logs st)),
                         l_product_id = lastrowid (map p_id (products st)),
                         l_change_amount = n, l_reason = ''Initial stock'',
                         l_timestamp = now\<rparr>]
                  else [])\<rparr>))"
  by (simp add: create_product_write_def insert_product_def insert_stock_log_def Let_def)

lemma create_product_check_Inr:
  "create_product_check st data = Inr (name, sku, category_id, price, purchasing_price, n, m) \<Longrightarrow>
   0 \<le> n \<and> n = (case f_stock_quantity data of None \<Rightarrow> 0 | Some k \<Rightarrow> k) \<and>
   m = (case f_min_stock_level data of None \<Rightarrow> 5 | Some k \<Rightarrow> k)"
  by (auto simp: create_product_check_def Let_def split: option.splits if_splits)

lemma create_product_result:
  "(\<exists>e. create_product now st data = (Inl e, st)) \<or>
   (\<exists>name sku category_id price purchasing_price.
      0 \<le> (case f_stock_quantity data of None \<Rightarrow> 0 | Some n \<Rightarrow> n) \<and>
      create_product now st data =
        create_product_write now st name sku category_id price purchasing_price
          (case f_stock_quantity data of None \<Rightarrow> 0 | Some n \<Rightarrow> n)
          (case f_min_stock_level data of None \<Rightarrow> 5 | Some m \<Rightarrow> m))"
proof (cases "create_product_check st data")
  case (Inl e)
  then show ?thesis by (simp add: create_product_def)
next
  case (Inr v)
  obtain name sku category_id price purchasing_price n m
    where v: "v = (name, sku, category_id, price, purchasing_price, n, m)"
    by (cases v) auto
  from create_product_check_Inr [OF Inr [unfolded v]]
  have vals: "0 \<le> n" "n = (case f_stock_quantity data of None \<Rightarrow> 0 | Some k \<Rightarrow> k)"
    "m = (case f_min_stock_level data of None \<Rightarrow> 5 | Some k \<Rightarrow> k)"
    by simp_all
  have "create_product now st data =
          create_product_write now st name sku category_id price purchasing_price n m"
    by (simp add: create_product_def Inr v)
  with vals show ?thesis by blast
qed

lemma ledger_consistent_create_product_write:
  assumes inv: "ledger_consistent st" and n: "0 \<le> n"
  shows "ledger_consistent
           (snd (create_product_write now st name sku category_id price purchasing_price n m))"
proof (cases "list_ex (\<lambda>p. p_sku p = sku) (products st)")
  case True
  with inv show ?thesis by (simp add: create_product_write_result)
next
  case False
  let ?new = "lastrowid (map p_id (products st))"
  have fresh: "?new \<notin> p_id ` set (products st)" by (rule lastrowid_fresh)
  from inv have refs: "\<forall>l\<in>set (stock_logs st). l_product_id l \<in> p_id ` set (products st)"
    by (simp add: ledger_consistent_iff)
  with fresh have none: "filter (\<lambda>l. l_product_id l = ?new) (stock_logs st) = []"
    unfolding filter_empty_conv by metis
  have old: "filter (\<lambda>l. l_product_id l = p_id p)
               (if n > 0 then [\<lparr>l_id = i, l_product_id = ?new, l_change_amount = n,
                                l_reason = r, l_timestamp = now\<rparr>] else []) = []"
    if "p \<in> set (products st)" for p i r
    using that fresh by auto
  show ?thesis
    using inv n none old False
    by (auto simp: create_product_write_result ledger_consistent_iff ledger_sum_def)
qed

lemma ledger_consistent_create_product:
  assumes "ledger_consistent st"
  shows "ledger_consistent (snd (create_product now st data))"
  using create_product_result [of now st data] assms
  by (auto simp: ledger_consistent_create_product_write)

lemma ledger_consistent_init_db: "ledger_consistent init_db"
  by (simp add: ledger_consistent_def init_db_def)

lemma strip_example: "strip ''Widget'' = ''Widget''" "strip '' W-1 '' = ''W-1''"
  by (simp_all add: strip_def is_space_def)

lemma example_db_created: "create_product 100 init_db example_fields = (Inr 1, example_db)"
  by (simp add: create_product_def create_product_check_def example_fields_def
        strip_example Let_def create_product_write_def insert_product_def
        insert_stock_log_def lastrowid_def fits_int64_def example_db_def example_row_def
        init_db_def)

lemma example_db_sale:
  "add_sale 200 example_db (Some 1) (JInt 3) =
     (Inr \<lparr>r_sale_id = 1, r_remaining_stock = 2\<rparr>, example_db_sold)"
  by (simp add: add_sale_def example_db_fetch example_db_tables Let_def update_stock_def
        insert_stock_log_def lastrowid_def string_of_int_1 example_db_sold_def
        example_sold_row_def example_row_def)

subsection \<open>Non-negative stock\<close>

lemma stock_nonneg_iff:
  "stock_nonneg st \<longleftrightarrow> (\<forall>p\<in>set (products st). 0 \<le> p_stock_quantity p)"
  by (simp add: stock_nonneg_def list_all_iff)

lemma stock_nonneg_adjust:
  assumes "stock_nonneg st"
    and "products st' = map (\<lambda>p. if p_id p = pid then g p else p) (products st)"
    and "\<And>p. p \<in> set (products st) \<Longrightarrow> p_id p = pid \<Longrightarrow> 0 \<le> p_stock_quantity (g p)"
  shows "stock_nonneg st'"
  using assms by (auto simp: stock_nonneg_iff)

lemma add_sale_result:
  "(\<exists>e. add_sale now st pid quantity = (Inl e, st)) \<or>
   (\<exists>i q row. pid = Some i \<and> py_number quantity = Some q \<and> 0 < q \<and>
      fetch_product st i = Some row \<and> q \<le> p_stock_quantity row \<and>
      fst (add_sale now st pid quantity) =
        Inr \<lparr>r_sale_id = lastrowid (map s_id (sales st)),
             r_remaining_stock = p_stock_quantity row - q\<rparr> \<and>
      products (snd (add_sale now st pid quantity)) =
        update_stock now i (p_stock_quantity row - q) (products st))"
  by (auto simp: add_sale_def Let_def insert_stock_log_tables split: option.splits)

lemma restock_result:
  "(\<exists>e. restock now st pid quantity reason = (Inl e, st)) \<or>
   (\<exists>i q row. pid = Some i \<and> py_number quantity = Some q \<and> 0 < q \<and>
      fetch_product st i = Some row \<and>
      fst (restock now st pid quantity reason) = Inr (p_stock_quantity row + q) \<and>
      products (snd (restock now st pid quantity reason)) =
        update_stock now i (p_stock_quantity row + q) (products st))"
  by (auto simp: restock_def Let_def insert_stock_log_tables split: option.splits)

lemma restock_success:
  assumes "fetch_product st pid = Some row" and "pid \<noteq> 0" and "0 < q"
    and "fits_int64 (p_stock_quantity row + q)" and "fits_int64 q"
  shows "restock now st (Some pid) (JInt q) reason =
           (Inr (p_stock_quantity row + q),
            insert_stock_log now pid q
              (case reason of None \<Rightarrow> ''Manual restock'' | Some r \<Rightarrow> r)
              (st\<lparr>products := update_stock now pid (p_stock_quantity row + q) (products st)\<rparr>))"
  using assms by (simp add: restock_def Let_def)

lemma stock_nonneg_add_sale:
  assumes "stock_nonneg st"
  shows "stock_nonneg (snd (add_sale now st pid quantity))"
  using add_sale_result [of now st pid quantity]
proof (elim disjE exE conjE)
  fix e assume "add_sale now st pid quantity = (Inl e, st)"
  with assms show ?thesis by simp
next
  fix i q row
  assume le: "q \<le> p_stock_quantity row"
    and rows: "products (snd (add_sale now st pid quantity)) =
           update_stock now i (p_stock_quantity row - q) (products st)"
  show ?thesis
    by (rule stock_nonneg_adjust [OF assms rows [unfolded update_stock_def]]) (simp add: le)
qed

lemma stock_nonneg_restock:
  assumes "stock_nonneg st"
  shows "stock_nonneg (snd (restock now st pid quantity reason))"
  using restock_result [of now st pid quantity reason]
proof (elim disjE exE conjE)
  fix e assume "restock now st pid quantity reason = (Inl e, st)"
  with assms show ?thesis by simp
next
  fix i q row
  assume "0 < q" and fetch: "fetch_product st i = Some row"
    and rows: "products (snd (restock now st pid quantity reason)) =
           update_stock now i (p_stock_quantity row + q) (products st)"
  from fetch assms have "0 \<le> p_stock_quantity row"
    by (auto simp: stock_nonneg_iff dest: fetch_product_SomeD)
  with \<open>0 < q\<close> show ?thesis
    by (intro stock_nonneg_adjust [OF assms rows [unfolded update_stock_def]]) simp
qed

lemma update_product_check_stock:
  "update_product_check st product_id data = None \<Longrightarrow> f_stock_quantity data = Some n \<Longrightarrow>
   0 \<le> n"
  by (simp add: update_product_check_def split: if_splits)

lemma stock_nonneg_update_product:
  assumes "stock_nonneg st"
  shows "stock_nonneg (snd (update_product now st product_id data))"
  using update_product_result [of now st product_id data]
proof (elim disjE exE conjE)
  assume "snd (update_product now st product_id data) = st"
  with assms show ?thesis by simp
next
  fix row
  assume check: "update_product_check st product_id data = None"
    and rows: "products (snd (update_product now st product_id data)) =
        map (\<lambda>p. if p_id p = product_id then set_fields now data p else p) (products st)"
  show ?thesis
  proof (rule stock_nonneg_adjust [OF assms rows])
    fix p assume "p \<in> set (products st)"
    with assms have "0 \<le> p_stock_quantity p" by (simp add: stock_nonneg_iff)
    then show "0 \<le> p_stock_quantity (set_fields now data p)"
      using update_product_check_stock [OF check]
      by (simp add: set_fields_stock split: option.splits)
  qed
qed

lemma stock_nonneg_create_product:
  assumes "stock_nonneg st"
  shows "stock_nonneg (snd (create_product now st data))"
  using create_product_result [of now st data] assms
  by (auto simp: create_product_write_result stock_nonneg_def)

lemma create_product_negative_stock:
  assumes "f_stock_quantity data = Some n" and "n < 0"
  shows "\<exists>e. create_product now st data = (Inl e, st)"
proof (cases "create_product_check st data")
  case (Inl e)
  then show ?thesis by (simp add: create_product_def)
next
  case (Inr v)
  obtain name sku category_id price purchasing_price k m
    where "v = (name, sku, category_id, price, purchasing_price, k, m)"
    by (cases v) auto
  with Inr assms create_product_check_Inr [of st data name sku category_id price
    purchasing_price k m]
  show ?thesis by simp
qed

lemma update_product_negative_stock:
  "f_stock_quantity data = Some n \<Longrightarrow> n < 0 \<Longrightarrow>
   \<exists>e. update_product now st product_id data = (Inl e, st)"
  using update_product_check_stock [of st product_id data n]
  by (auto simp: update_product_def split: option.splits)

lemma add_sale_exceeding_stock:
  "fetch_product st i = Some row \<Longrightarrow> py_number quantity = Some q \<Longrightarrow>
   p_stock_quantity row < q \<Longrightarrow> \<exists>e. add_sale now st (Some i) quantity = (Inl e, st)"
  by (simp add: add_sale_def Let_def)

text \<open>
  C4. No writing route makes a stock negative: from a state in which every product
  has \<open>stock_quantity >= 0\<close>, the state after \<open>create_product\<close>, \<open>update_product\<close>,
  \<open>add_sale\<close> or \<open>restock\<close> (any arguments) is such a state again. The reasons:
  \<open>create_product\<close> and \<open>update_product\<close> refuse a negative \<open>stock_quantity\<close> and
  change nothing, \<open>add_sale\<close> refuses a quantity above the current stock and changes
  nothing, and a successful \<open>restock\<close> adds a positive quantity to the current stock.
\<close>

theorem stock_never_negative:
  assumes "stock_nonneg st"
  shows "stock_nonneg (snd (create_product now st data)) \<and>
         stock_nonneg (snd (update_product now st product_id data)) \<and>
         stock_nonneg (snd (add_sale now st pid quantity)) \<and>
         stock_nonneg (snd (restock now st pid quantity reason)) \<and>
         (f_stock_quantity data = Some n \<and> n < 0 \<longrightarrow>
            (\<exists>e. create_product now st data = (Inl e, st)) \<and>
            (\<exists>e. update_product now st product_id data = (Inl e, st))) \<and>
         (fetch_product st i = Some row \<and> py_number quantity = Some q \<and>
          p_stock_quantity row < q \<longrightarrow>
            (\<exists>e. add_sale now st (Some i) quantity = (Inl e, st))) \<and>
         (fst (restock now st pid quantity reason) = Inr new_stock \<longrightarrow>
            (\<exists>j k r. pid = Some j \<and> fetch_product st j = Some r \<and>
               py_number quantity = Some k \<and> 0 < k \<and> new_stock = p_stock_quantity r + k))"
proof (intro conjI impI)
  show "stock_nonneg (snd (create_product now st data))"
    using assms by (rule stock_nonneg_create_product)
  show "stock_nonneg (snd (update_product now st product_id data))"
    using assms by (rule stock_nonneg_update_product)
  show "stock_nonneg (snd (add_sale now st pid quantity))"
    using assms by (rule stock_nonneg_add_sale)
  show "stock_nonneg (snd (restock now st pid quantity reason))"
    using assms by (rule stock_nonneg_restock)
next
  assume "f_stock_quantity data = Some n \<and> n < 0"
  then show "\<exists>e. create_product now st data = (Inl e, st)"
    by (auto intro: create_product_negative_stock)
next
  assume "f_stock_quantity data = Some n \<and> n < 0"
  then show "\<exists>e. update_product now st product_id data = (Inl e, st)"
    by (auto intro: update_product_negative_stock)
next
  assume "fetch_product st i = Some row \<and> py_number quantity = Some q \<and> p_stock_quantity row < q"
  then show "\<exists>e. add_sale now st (Some i) quantity = (Inl e, st)"
    by (auto intro: add_sale_exceeding_stock)
next
  assume "fst (restock now st pid quantity reason) = Inr new_stock"
  with restock_result [of now st pid quantity reason]
  show "\<exists>j k r. pid = Some j \<and> fetch_product st j = Some r \<and>
               py_number quantity = Some k \<and> 0 < k \<and> new_stock = p_stock_quantity r + k"
    by auto
qed

theorem stock_never_negative_witness:
  "stock_nonneg example_db \<and>
   stock_nonneg (snd (create_product 300 example_db example_negative_fields)) \<and>
   stock_nonneg (snd (update_product 300 example_db 1 example_negative_fields)) \<and>
   stock_nonneg (snd (add_sale 300 example_db (Some 1) (JInt 6))) \<and>
   stock_nonneg (snd (restock 300 example_db (Some 1) (JInt 6) None)) \<and>
   f_stock_quantity example_negative_fields = Some (- 1) \<and>
   (\<exists>e. create_product 300 example_db example_negative_fields = (Inl e, example_db)) \<and>
   (\<exists>e. update_product 300 example_db 1 example_negative_fields = (Inl e, example_db)) \<and>
   p_stock_quantity example_row < 6 \<and>
   (\<exists>e. add_sale 300 example_db (Some 1) (JInt 6) = (Inl e, example_db)) \<and>
   fst (restock 300 example_db (Some 1) (JInt 6) None) = Inr 11"
proof -
  have nonneg: "stock_nonneg example_db"
    by (simp add: stock_nonneg_def example_db_tables example_row_def)
  have neg: "f_stock_quantity example_negative_fields = Some (- 1)"
    by (simp add: example_negative_fields_def)
  have stock: "p_stock_quantity example_row = 5"
    by (simp add: example_row_def)
  have new: "fst (restock 300 example_db (Some 1) (JInt 6) None) = Inr 11"
    by (simp add: restock_def example_db_fetch stock Let_def fits_int64_def)
  from stock_never_negative
         [OF nonneg, of 300 example_negative_fields 1 "Some 1" "JInt 6" None "- 1" 1
            example_row 6 11]
  show ?thesis
    using nonneg neg new by (simp add: example_db_fetch stock)
qed

lemma ledger_consistent_preserved:
  assumes "ledger_consistent st"
  shows "ledger_consistent (snd (create_product now st data)) \<and>
         ledger_consistent (snd (update_product now st product_id data)) \<and>
         ledger_consistent (snd (add_sale now st pid quantity)) \<and>
         ledger_consistent (snd (restock now st pid quantity reason))"
  using assms
  by (simp add: ledger_consistent_create_product ledger_consistent_update_product
        ledger_consistent_add_sale ledger_consistent_restock)

subsection \<open>Creating and updating products\<close>





lemma example_default_fields_values:
  "f_name example_default_fields = Some ''Widget''"
  "f_sku example_default_fields = Some '' W-1 ''"
  "f_category_id example_default_fields = Some 1"
  "f_price example_default_fields = Some 10"
  "f_purchasing_price example_default_fields = Some 4"
  "f_stock_quantity example_default_fields = None"
  "f_min_stock_level example_default_fields = None"
  by (simp_all add: example_default_fields_def example_fields_def)

lemma example_fields_values:
  "f_name example_fields = Some ''Widget''"
  "f_sku example_fields = Some '' W-1 ''"
  "f_category_id example_fields = Some 1"
  "f_price example_fields = Some 10"
  "f_purchasing_price example_fields = Some 4"
  "f_stock_quantity example_fields = Some 5"
  "f_min_stock_level example_fields = None"
  by (simp_all add: example_fields_def)

lemma init_db_tables:
  "products init_db = []" "sales init_db = []" "stock_logs init_db = []"
  "list_ex (\<lambda>c. c_id c = 1) (categories init_db)"
  by (simp_all add: init_db_def)

lemma fits_int64_small: "fits_int64 0" "fits_int64 1" "fits_int64 5"
  by (simp_all add: fits_int64_def)

text \<open>
  C10 as the specification states it fails: a request without \<open>stock_quantity\<close>
  that passes every check of the handler, with \<open>min_stock_level = 2 ^ 63\<close>, is
  answered with status 500 and no product is created.
\<close>

theorem create_product_overflow:
  "f_stock_quantity example_overflow_fields = None \<and>
   create_product_check init_db example_overflow_fields =
     Inr (''Widget'', ''W-1'', 1, 10, 4, 0, 9223372036854775808) \<and>
   create_product 100 init_db example_overflow_fields = (Inl Failed, init_db) \<and>
   products init_db = []"
  by (simp add: create_product_def create_product_check_def example_overflow_fields_def
        example_default_fields_def example_fields_def strip_example init_db_tables
        fits_int64_def create_product_write_result)

text \<open>
  C10, as the code has it. A \<open>create_product\<close> request that passes the checks
  (required fields present, name and sku not blank, price positive, purchasing price
  and stock not negative, sku unused, category known) and whose integers fit in the 64
  bits of the store inserts one product whose \<open>stock_quantity\<close> is the given value,
  or 0 when the field is absent, and whose \<open>min_stock_level\<close> is the given value, or
  5 when the field is absent. An \<open>Initial stock\<close> row is appended to \<open>stock_logs\<close>
  exactly when the initial stock is positive; with the field absent none is appended.
\<close>

theorem create_product_defaults:
  assumes "f_name data = Some raw_name" and "f_sku data = Some raw_sku"
    and "f_category_id data = Some category_id" and "f_price data = Some price"
    and "f_purchasing_price data = Some purchasing_price"
    and "strip raw_name \<noteq> []" and "strip raw_sku \<noteq> []"
    and "0 < price" and "0 \<le> purchasing_price"
    and "stock_quantity = (case f_stock_quantity data of None \<Rightarrow> 0 | Some n \<Rightarrow> n)"
    and "min_stock_level = (case f_min_stock_level data of None \<Rightarrow> 5 | Some m \<Rightarrow> m)"
    and "0 \<le> stock_quantity"
    and "\<not> list_ex (\<lambda>p. p_sku p = strip raw_sku) (products st)"
    and "list_ex (\<lambda>c. c_id c = category_id) (categories st)"
    and "fits_int64 category_id" and "fits_int64 stock_quantity"
    and "fits_int64 min_stock_level"
  shows "create_product now st data =
           (Inr (lastrowid (map p_id (products st))),
            st\<lparr>products := products st @
                 [\<lparr>p_id = lastrowid (map p_id (products st)), p_name = strip raw_name,
                   p_sku = strip raw_sku, p_category_id = category_id, p_price = price,
                   p_purchasing_price = purchasing_price,
                   p_stock_quantity = stock_quantity,
                   p_min_stock_level = min_stock_level,
                   p_created_at = now, p_updated_at = now\<rparr>],
               stock_logs := stock_logs st @
                 (if 0 < stock_quantity
                  then [\<lparr>l_id = lastrowid (map l_id (stock_logs st)),
                         l_product_id = lastrowid (map p_id (products st)),
                         l_change_amount = stock_quantity, l_reason = ''Initial stock'',
                         l_timestamp = now\<rparr>]
                  else [])\<rparr>) \<and>
         (f_stock_quantity data = None \<longrightarrow>
            stock_quantity = 0 \<and>
            stock_logs (snd (create_product now st data)) = stock_logs st) \<and>
         (f_min_stock_level data = None \<longrightarrow> min_stock_level = 5)"
proof -
  have check: "create_product_check st data =
      Inr (strip raw_name, strip raw_sku, category_id, price, purchasing_price,
           stock_quantity, min_stock_level)"
    using assms by (simp add: create_product_check_def Let_def)
  have run: "create_product now st data =
      create_product_write now st (strip raw_name) (strip raw_sku) category_id price
        purchasing_price stock_quantity min_stock_level"
    by (simp add: create_product_def check)
  show ?thesis
    using assms(10,11,13,15,16,17) by (auto simp: run create_product_write_result)
qed

theorem create_product_defaults_witness:
  "f_stock_quantity example_default_fields = None \<and>
   f_min_stock_level example_default_fields = None \<and>
   create_product 100 init_db example_default_fields =
     (Inr 1,
      init_db\<lparr>products :=
        [\<lparr>p_id = 1, p_name = ''Widget'', p_sku = ''W-1'', p_category_id = 1, p_price = 10,
          p_purchasing_price = 4, p_stock_quantity = 0, p_min_stock_level = 5,
          p_created_at = 100, p_updated_at = 100\<rparr>]\<rparr>) \<and>
   stock_logs (snd (create_product 100 init_db example_default_fields)) = []"
proof -
  have sku: "\<not> list_ex (\<lambda>p. p_sku p = strip '' W-1 '') (products init_db)"
    by (simp add: init_db_tables)
  from create_product_defaults
         [of example_default_fields "''Widget''" "'' W-1 ''" 1 10 4 0 5 init_db 100,
          OF example_default_fields_values(1-5) _ _ _ _ _ _ _ sku init_db_tables(4)]
  show ?thesis
    by (simp add: example_default_fields_values strip_example init_db_tables lastrowid_def
          fits_int64_small)
qed

text \<open>
  C6 as the specification states it fails: with the sku of an existing product and a
  negative \<open>stock_quantity\<close> the answer is \<open>Stock quantity cannot be negative\<close>, not
  \<open>SKU already exists\<close>. The checks of the values run before the lookup of the sku.
\<close>

theorem create_product_duplicate_sku_invalid:
  "f_sku example_negative_fields = Some '' W-1 '' \<and>
   example_row \<in> set (products example_db) \<and> p_sku example_row = strip '' W-1 '' \<and>
   create_product 300 example_db example_negative_fields =
     (Inl Stock_quantity_cannot_be_negative, example_db)"
  by (simp add: create_product_def create_product_check_def example_negative_fields_def
        example_fields_def strip_example example_db_tables example_row_def)

lemma create_product_interleaved_same:
  "create_product_interleaved now st st data = create_product now st data"
  by (simp add: create_product_interleaved_def create_product_def)

text \<open>
  C6, as the code has it. When a product of the table already has the sku of the
  request (the sku after \<open>strip()\<close>), \<open>create_product\<close> answers with an error and
  leaves the store unchanged: no product row and no stock log row is written. When the
  request passes the checks of the values that precede the lookup, the error is
  \<open>SKU already exists\<close> (status 400). The same answer is given when the lookups of
  the handler passed on an earlier store \<open>st0\<close> and the row with that sku was
  committed by another connection before the \<open>INSERT\<close>: the \<open>IntegrityError\<close> of
  the store is answered with \<open>SKU already exists\<close>, and nothing is written.
\<close>

theorem create_product_duplicate_sku:
  assumes "f_sku data = Some raw_sku" and "p \<in> set (products st)"
    and "p_sku p = strip raw_sku"
  shows "(\<exists>e. create_product now st data = (Inl e, st)) \<and>
         (f_name data = Some raw_name \<and> f_category_id data = Some category_id \<and>
          f_price data = Some price \<and> f_purchasing_price data = Some purchasing_price \<and>
          strip raw_name \<noteq> [] \<and> strip raw_sku \<noteq> [] \<and> 0 < price \<and>
          0 \<le> purchasing_price \<and>
          0 \<le> (case f_stock_quantity data of None \<Rightarrow> 0 | Some n \<Rightarrow> n) \<longrightarrow>
            create_product now st data = (Inl SKU_already_exists, st)) \<and>
         (create_product_check st0 data = Inr (name, sku, c, x, y, n, m) \<and>
          fits_int64 n \<and> fits_int64 m \<longrightarrow>
            create_product_interleaved now st0 st data = (Inl SKU_already_exists, st)) \<and>
         status_code SKU_already_exists = 400"
proof -
  from assms(2,3) have dup: "list_ex (\<lambda>p. p_sku p = strip raw_sku) (products st)"
    by (auto simp: list_ex_iff)
  have any: "\<exists>e. create_product now st data = (Inl e, st)"
    using assms(1) dup
    by (simp add: create_product_def create_product_check_def Let_def split: option.splits)
  have valid: "create_product now st data = (Inl SKU_already_exists, st)"
    if "f_name data = Some raw_name" "f_category_id data = Some category_id"
      "f_price data = Some price" "f_purchasing_price data = Some purchasing_price"
      "strip raw_name \<noteq> []" "strip raw_sku \<noteq> []" "0 < price" "0 \<le> purchasing_price"
      "0 \<le> (case f_stock_quantity data of None \<Rightarrow> 0 | Some n \<Rightarrow> n)"
    using that assms(1) dup
    by (simp add: create_product_def create_product_check_def Let_def)
  have race: "create_product_interleaved now st0 st data = (Inl SKU_already_exists, st)"
    if check: "create_product_check st0 data = Inr (name, sku, c, x, y, n, m)"
      and fits: "fits_int64 n" "fits_int64 m"
  proof -
    from check assms(1) have "sku = strip raw_sku" and "fits_int64 c"
      by (auto simp: create_product_check_def Let_def split: option.splits if_splits)
    with dup fits show ?thesis
      by (simp add: create_product_interleaved_def check create_product_write_result)
  qed
  from any valid race show ?thesis
    by simp
qed

theorem create_product_duplicate_sku_witness:
  "f_sku example_fields = Some '' W-1 '' \<and>
   example_row \<in> set (products example_db) \<and> p_sku example_row = strip '' W-1 '' \<and>
   create_product 300 example_db example_fields = (Inl SKU_already_exists, example_db) \<and>
   create_product_check init_db example_fields = Inr (''Widget'', ''W-1'', 1, 10, 4, 5, 5) \<and>
   create_product_interleaved 300 init_db example_db example_fields =
     (Inl SKU_already_exists, example_db)"
proof -
  have row: "example_row \<in> set (products example_db)"
    by (simp add: example_db_tables)
  have sku: "p_sku example_row = strip '' W-1 ''"
    by (simp add: strip_example example_row_def)
  have check: "create_product_check init_db example_fields =
      Inr (''Widget'', ''W-1'', 1, 10, 4, 5, 5)"
    by (simp add: create_product_check_def example_fields_values strip_example
          init_db_tables fits_int64_small)
  from create_product_duplicate_sku
         [OF example_fields_values(2) row sku,
          of 300 "''Widget''" 1 10 4 init_db "''Widget''" "''W-1''" 1 10 4 5 5]
  show ?thesis
    using row sku check
    by (simp add: strip_example example_fields_values fits_int64_small)
qed

subsection \<open>Reports\<close>








lemma example_two_sales_join:
  "sales_join_products example_db_two_sales = rev example_sale_rows"
  by (simp add: sales_join_products_def example_db_two_sales_def example_db_sold_def
        example_sold_row_def example_row_def example_sale_rows_def)

lemma example_two_sales_sorted:
  "sort_key (\<lambda>r. - sr_sale_date r) (rev example_sale_rows) = example_sale_rows"
  by (simp add: example_sale_rows_def sort_key_def)

lemma example_get_sales: "get_sales example_db_two_sales = example_sale_rows"
  by (simp add: get_sales_def example_two_sales_join example_two_sales_sorted)
    (simp add: example_sale_rows_def)

text \<open>
  C9 as the specification states it fails: \<open>get_sales\<close> takes no limit. On a table
  of two sales a request for the most recent one (limit 1) is answered with both.
\<close>

theorem get_sales_ignores_limit:
  "get_sales example_db_two_sales = example_sale_rows \<and>
   length (get_sales example_db_two_sales) = 2 \<and>
   SalesHistory_spec 1 example_db_two_sales = [hd example_sale_rows] \<and>
   get_sales example_db_two_sales \<noteq> SalesHistory_spec 1 example_db_two_sales"
  by (simp add: example_get_sales SalesHistory_spec_def example_two_sales_join
        example_two_sales_sorted)
    (simp add: example_sale_rows_def)

lemma set_sales_join_products:
  "set (sales_join_products st) =
     {\<lparr>sr_id = s_id s, sr_product_id = s_product_id s, sr_product_name = p_name p,
       sr_sku = p_sku p, sr_quantity = s_quantity s, sr_total_price = s_total_price s,
       sr_sale_date = s_sale_date s\<rparr> | s p.
      s \<in> set (sales st) \<and> p \<in> set (products st) \<and> s_product_id s = p_id p}"
  by (auto simp: sales_join_products_def) metis

text \<open>
  C9, as the code has it. \<open>get_sales\<close> returns the 100 most recent sale records (all
  of them when there are fewer), each one a row of \<open>sales\<close> joined with the product
  of its \<open>product_id\<close> (name and sku), in descending order of \<open>sale_date\<close>: no row
  left out is more recent than a row returned. The limit is the constant 100.
\<close>

theorem get_sales_most_recent_100:
  "get_sales st = SalesHistory_spec 100 st \<and>
   length (get_sales st) = min 100 (length (sales_join_products st)) \<and>
   sorted_wrt (\<lambda>a b. sr_sale_date b \<le> sr_sale_date a) (get_sales st) \<and>
   (\<exists>rest. mset (get_sales st @ rest) = mset (sales_join_products st) \<and>
      (\<forall>a\<in>set (get_sales st). \<forall>b\<in>set rest. sr_sale_date b \<le> sr_sale_date a)) \<and>
   (\<forall>r\<in>set (get_sales st). \<exists>s\<in>set (sales st). \<exists>p\<in>set (products st).
      s_product_id s = p_id p \<and>
      r = \<lparr>sr_id = s_id s, sr_product_id = s_product_id s, sr_product_name = p_name p,
           sr_sku = p_sku p, sr_quantity = s_quantity s, sr_total_price = s_total_price s,
           sr_sale_date = s_sale_date s\<rparr>)"
proof -
  let ?key = "\<lambda>r. - sr_sale_date r"
  let ?all = "sort_key ?key (sales_join_products st)"
  have split: "?all = get_sales st @ drop 100 ?all"
    by (simp add: get_sales_def)
  have "sorted (map ?key ?all)"
    by (rule sorted_sort_key)
  then have desc: "sorted_wrt (\<lambda>a b. sr_sale_date b \<le> sr_sale_date a) ?all"
    by (simp add: sorted_map)
  then have "sorted_wrt (\<lambda>a b. sr_sale_date b \<le> sr_sale_date a) (get_sales st @ drop 100 ?all)"
    using split by simp
  then have parts: "sorted_wrt (\<lambda>a b. sr_sale_date b \<le> sr_sale_date a) (get_sales st)"
    "\<forall>a\<in>set (get_sales st). \<forall>b\<in>set (drop 100 ?all). sr_sale_date b \<le> sr_sale_date a"
    by (simp_all add: sorted_wrt_append)
  have "mset (get_sales st @ drop 100 ?all) = mset (sales_join_products st)"
    using split by (metis mset_sort)
  with parts(2) have rest: "\<exists>rest. mset (get_sales st @ rest) = mset (sales_join_products st) \<and>
      (\<forall>a\<in>set (get_sales st). \<forall>b\<in>set rest. sr_sale_date b \<le> sr_sale_date a)"
    by blast
  have "set (get_sales st) \<subseteq> set (sales_join_products st)"
    by (metis get_sales_def set_sort set_take_subset)
  then have rows: "\<forall>r\<in>set (get_sales st). \<exists>s\<in>set (sales st). \<exists>p\<in>set (products st).
      s_product_id s = p_id p \<and>
      r = \<lparr>sr_id = s_id s, sr_product_id = s_product_id s, sr_product_name = p_name p,
           sr_sku = p_sku p, sr_quantity = s_quantity s, sr_total_price = s_total_price s,
           sr_sale_date = s_sale_date s\<rparr>"
    unfolding set_sales_join_products by blast
  have len: "length (get_sales st) = min 100 (length (sales_join_products st))"
    by (simp add: get_sales_def min.commute)
  from len parts(1) rest rows show ?thesis
    by (simp add: get_sales_def SalesHistory_spec_def)
qed

theorem get_sales_most_recent_100_witness:
  "get_sales example_db_two_sales = example_sale_rows \<and>
   length (sales_join_products example_db_two_sales) = 2 \<and>
   length (get_sales example_db_two_sales) = 2 \<and>
   sorted_wrt (\<lambda>a b. sr_sale_date b \<le> sr_sale_date a) (get_sales example_db_two_sales) \<and>
   map sr_sale_date (get_sales example_db_two_sales) = [400, 200]"
proof -
  have len: "length (sales_join_products example_db_two_sales) = 2"
    by (simp add: example_two_sales_join example_sale_rows_def)
  have dates: "map sr_sale_date example_sale_rows = [400, 200]"
    by (simp add: example_sale_rows_def)
  from get_sales_most_recent_100 [of example_db_two_sales]
  show ?thesis
    by (simp add: example_get_sales len dates)
qed

subsection \<open>The quantity of a sale\<close>

lemma add_sale_rejects_nonpositive:
  assumes "\<not> truthy quantity \<or> (\<exists>n. py_number quantity = Some n \<and> n \<le> 0)"
  shows "\<exists>e. add_sale now st product_id quantity = (Inl e, st) \<and> status_code e = 400"
  using assms by (auto simp: add_sale_def split: option.splits)

text \<open>
  C7. \<open>add_sale\<close> tests \<open>quantity\<close> for presence and sign only. On the example
  store, the string \<open>"2"\<close> is answered with status 500 (the \<open>TypeError\<close> of
  \<open>quantity <= 0\<close> reaches the outer handler), not with a 400; the boolean \<open>true\<close>
  is taken as the number 1 and the sale is recorded.
\<close>

theorem add_sale_non_integer_quantity:
  "add_sale 300 example_db (Some 1) (JStr ''2'') = (Inl Failed, example_db) \<and>
   status_code Failed = 500 \<and>
   fst (add_sale 300 example_db (Some 1) (JBool True)) =
     Inr \<lparr>r_sale_id = 1, r_remaining_stock = 4\<rparr> \<and>
   sales (snd (add_sale 300 example_db (Some 1) (JBool True))) =
     [\<lparr>s_id = 1, s_product_id = 1, s_quantity = 1, s_total_price = 10, s_sale_date = 300\<rparr>] \<and>
   stock_logs (snd (add_sale 300 example_db (Some 1) (JBool True))) =
     stock_logs example_db @
       [\<lparr>l_id = 2, l_product_id = 1, l_change_amount = - 1, l_reason = ''Sale #1'',
         l_timestamp = 300\<rparr>]"
proof -
  have row: "p_stock_quantity example_row = 5" "p_price example_row = 10"
    by (simp_all add: example_row_def)
  show ?thesis
    by (simp add: add_sale_def example_db_fetch example_db_tables row Let_def lastrowid_def
          string_of_int_1 insert_stock_log_tables)
qed

end
